theory Spec2Isabelle
  imports Complex_Main "HOL-Library.Sublist" "HOL-Library.Multiset"
begin

section \<open>Strings as the Python code uses them\<close>

text \<open>
  A Python \<open>str\<close> is modelled as a \<open>string\<close>, one \<open>char\<close> for each character. The
  domain of the model is ASCII text (\<open>is_ascii\<close>): there \<open>length\<close> is Python's \<open>len\<close>,
  and white space, word characters and \<open>lower\<close> are as in Python. Outside ASCII the
  model says nothing about the code: Python counts characters where a \<open>string\<close> would
  hold several bytes, and it knows letters and spaces beyond ASCII. Properties that depend
  on the length or on the class of the characters of an arbitrary string carry the
  hypothesis \<open>is_ascii\<close>.
\<close>

definition is_ascii :: "string \<Rightarrow> bool" where
  "is_ascii s = list_all (\<lambda>c. (of_char c :: nat) < 128) s"

definition is_space :: "char \<Rightarrow> bool" where
  \<comment> \<open>\<open>str.isspace\<close> on ASCII: TAB, LF, VT, FF, CR, FS, GS, RS, US and the blank.\<close>
  "is_space c = (c \<in> set [CHR 0x09, CHR 0x0A, CHR 0x0B, CHR 0x0C, CHR 0x0D,
                           CHR 0x1C, CHR 0x1D, CHR 0x1E, CHR 0x1F, CHR 0x20])"

definition strip :: "string \<Rightarrow> string" where
  \<comment> \<open>\<open>str.strip()\<close>: white space removed at both ends.\<close>
  "strip s = rev (dropWhile is_space (rev (dropWhile is_space s)))"

definition upper_alpha :: string where
  "upper_alpha = ''ABCDEFGHIJKLMNOPQRSTUVWXYZ''"

definition lower_alpha :: string where
  "lower_alpha = ''abcdefghijklmnopqrstuvwxyz''"

definition lower_char :: "char \<Rightarrow> char" where
  "lower_char c = (case map_of (zip upper_alpha lower_alpha) c of Some d \<Rightarrow> d | None \<Rightarrow> c)"

definition lower :: "string \<Rightarrow> string" where
  \<comment> \<open>\<open>str.lower()\<close>\<close>
  "lower s = map lower_char s"

definition is_word :: "char \<Rightarrow> bool" where
  \<comment> \<open>the class \<open>\w\<close> of \<open>re\<close> on ASCII: letters, digits and the underscore\<close>
  "is_word c = (c \<in> set (upper_alpha @ lower_alpha @ ''0123456789_''))"

text \<open>
  The three regular expressions of the classifier have the shape
  \<open>\b(w1|...|wn)\b\<close> with literal alternatives. \<open>re.search\<close> tries every start
  position from left to right and, at each, every alternative; \<open>\b\<close> holds between two
  neighbouring characters of which exactly one is a word character, the two ends of the
  string counting as non-word. The scan below carries the character before the current
  position (\<open>None\<close> at the start of the string).
\<close>

definition word_opt :: "char option \<Rightarrow> bool" where
  "word_opt c = (case c of None \<Rightarrow> False | Some x \<Rightarrow> is_word x)"

definition head_opt :: "string \<Rightarrow> char option" where
  "head_opt s = (case s of [] \<Rightarrow> None | c # _ \<Rightarrow> Some c)"

definition boundary :: "char option \<Rightarrow> string \<Rightarrow> bool" where
  \<comment> \<open>\<open>\b\<close> between the character \<open>prev\<close> and the rest \<open>s\<close> of the string\<close>
  "boundary prev s = (word_opt prev \<noteq> word_opt (head_opt s))"

fun match_word :: "char option \<Rightarrow> string \<Rightarrow> string \<Rightarrow> bool" where
  \<comment> \<open>the literal \<open>w\<close> followed by \<open>\b\<close>, against the rest of the string\<close>
  "match_word prev [] s = boundary prev s"
| "match_word prev (c # w) [] = False"
| "match_word prev (c # w) (d # t) = (c = d \<and> match_word (Some d) w t)"

fun search_from :: "string list \<Rightarrow> char option \<Rightarrow> string \<Rightarrow> bool" where
  "search_from ws prev [] =
     (boundary prev [] \<and> list_ex (\<lambda>w. match_word prev w []) ws)"
| "search_from ws prev (c # t) =
     ((boundary prev (c # t) \<and> list_ex (\<lambda>w. match_word prev w (c # t)) ws)
      \<or> search_from ws (Some c) t)"

definition re_search_words :: "string list \<Rightarrow> string \<Rightarrow> bool" where
  \<comment> \<open>\<open>bool(re.search(r"\b(w1|...|wn)\b", s))\<close>\<close>
  "re_search_words ws s = search_from ws None s"

section \<open>Detail-level classifier (rag.py)\<close>

datatype DetailLevel = Basic | Standard | Advanced

definition cli_words :: "string list" where
  "cli_words = [''docker'', ''kubectl'', ''curl'', ''pip'', ''conda'', ''apt-get'', ''brew'']"

definition log_words :: "string list" where
  "log_words = [''traceback'', ''exception'', ''stack trace'', ''error:'', ''warn['']"

definition protocol_words :: "string list" where
  "protocol_words = [''http'', ''https'', ''grpc'', ''tcp'', ''udp'', ''oauth'', ''jwt'']"

definition acronym_words :: "string list" where
  "acronym_words = [''RAG'', ''LLM'', ''API'', ''SDK'', ''TLS'', ''SSL'', ''CVE'', ''XSS'',
                    ''CSRF'', ''SQLi'', ''RBAC'', ''IAM'']"

definition has_code_block :: "string \<Rightarrow> bool" where
  "has_code_block m = sublist ''```'' m"

definition has_cli :: "string \<Rightarrow> bool" where
  "has_cli m = re_search_words cli_words (lower m)"

definition has_logs :: "string \<Rightarrow> bool" where
  "has_logs m = re_search_words log_words (lower m)"

definition has_protocols :: "string \<Rightarrow> bool" where
  "has_protocols m = re_search_words protocol_words (lower m)"

definition has_acronyms :: "string \<Rightarrow> bool" where
  "has_acronyms m = re_search_words acronym_words m"

definition long_or_multi :: "string \<Rightarrow> bool" where
  "long_or_multi m =
     (180 < length m \<or> 2 \<le> count_list m (CHR ''?'') \<or> 3 \<le> count_list m (CHR 0x0A))"

definition signal_weights :: "string \<Rightarrow> nat list" where
  \<comment> \<open>the list that the code sums, in the code's order\<close>
  "signal_weights m =
     [if has_code_block m then 2 else 0,
      if has_cli m then 2 else 0,
      if has_logs m then 2 else 0,
      if has_protocols m then 1 else 0,
      if has_acronyms m then 1 else 0,
      if long_or_multi m then 1 else 0]"

definition advanced_score :: "string \<Rightarrow> nat" where
  "advanced_score m = sum_list (signal_weights m)"

definition content_signal :: "string \<Rightarrow> bool" where
  \<comment> \<open>the disjunction tested by the second \<open>if\<close> of the classifier\<close>
  "content_signal m =
     (has_cli m \<or> has_logs m \<or> has_protocols m \<or> has_acronyms m \<or> has_code_block m)"

definition classify_detail_level :: "string \<Rightarrow> DetailLevel" where
  "classify_detail_level message =
     (let m = strip message in
      if m = [] then Basic
      else if 3 \<le> advanced_score m then Advanced
      else if length m \<le> 60 \<and> \<not> content_signal m then Basic
      else Standard)"

text \<open>
  The decision rule as the specification words it, for comparison with the code: the
  structural signal counts among the signals that must not have fired for \<open>basic\<close>.
\<close>

definition spec_decision_rule :: "string \<Rightarrow> DetailLevel" where
  "spec_decision_rule message =
     (let m = strip message in
      if 3 \<le> advanced_score m then Advanced
      else if m = [] \<or> (length m \<le> 60 \<and> \<not> content_signal m \<and> \<not> long_or_multi m) then Basic
      else Standard)"

section \<open>Prompt building (rag.py)\<close>

text \<open>
  Exceptions of the Python code, as values. \<open>HTTPException\<close> carries the status code and
  the detail text of the response.
\<close>

datatype py_exn =
    TimeoutError | JSONDecodeError | TypeError | RuntimeError | IndexError | KeyError
  | AttributeError | RecursionError
  | ValidationError | TransportError | HTTPStatusError nat | MilvusException
  | HTTPException nat string

datatype json =
    JNull | JBool bool | JNum real | JStr string | JArr "json list"
  | JObj "(string \<times> json) list"

record source_record =
  title :: string
  url :: string
  source :: string
  published_date :: string
  tags :: json
  distance :: real
  snippet :: string

definition level_name :: "DetailLevel \<Rightarrow> string" where
  \<comment> \<open>the string that the \<open>Literal\<close> value is in Python\<close>
  "level_name l = (case l of Basic \<Rightarrow> ''basic'' | Standard \<Rightarrow> ''standard''
                   | Advanced \<Rightarrow> ''advanced'')"

definition en_dash :: string where
  \<comment> \<open>U+2013, the one non-ASCII character of the templates, as its UTF-8 bytes\<close>
  "en_dash = [CHR 0xE2, CHR 0x80, CHR 0x93]"

definition detail_instructions :: "DetailLevel \<Rightarrow> string" where
  "detail_instructions level =
     (if level = Basic then
        ''Write for a beginner.\<newline>''
        @ ''- Keep it short (3'' @ en_dash @ ''8 sentences).\<newline>''
        @ ''- Explain jargon in plain language.\<newline>''
        @ ''- Prefer bullets.\<newline>''
        @ ''- Avoid deep implementation details unless asked.\<newline>''
      else if level = Advanced then
        ''Write for a technical audience.\<newline>''
        @ ''- Be precise.\<newline>''
        @ ''- Include concrete steps, commands, and edge cases when helpful.\<newline>''
        @ ''- Mention security/reliability considerations if relevant.\<newline>''
        @ ''- If you make assumptions, state them.\<newline>''
      else
        ''Write at an intermediate level.\<newline>''
        @ ''- Clear explanation with practical guidance.\<newline>''
        @ ''- Use bullets and short sections.\<newline>''
        @ ''- Include commands only when they add real value.\<newline>'')"

definition digit_char :: "nat \<Rightarrow> char" where
  "digit_char d = ''0123456789'' ! d"

function str_nat :: "nat \<Rightarrow> string" where
  \<comment> \<open>\<open>str(i)\<close> for a non-negative integer: its decimal digits\<close>
  "str_nat n = (if n < 10 then [digit_char n] else str_nat (n div 10) @ [digit_char (n mod 10)])"
  by pat_completeness auto
termination
  by (relation "measure id") auto

fun join :: "string \<Rightarrow> string list \<Rightarrow> string" where
  \<comment> \<open>\<open>sep.join(xs)\<close>\<close>
  "join sep [] = []"
| "join sep [x] = x"
| "join sep (x # y # ys) = x @ sep @ join sep (y # ys)"

definition render_source :: "nat \<times> source_record \<Rightarrow> string" where
  "render_source p =
     (case p of (i, s) \<Rightarrow>
        ''['' @ str_nat i @ ''] '' @ title s @ '' ('' @ url s @ '')\<newline>'' @ snippet s)"

definition context_block :: "source_record list \<Rightarrow> string" where
  "context_block sources =
     (let ctx_lines = map render_source (enumerate 1 sources)
      in if ctx_lines \<noteq> [] then join ''\<newline>\<newline>'' ctx_lines
         else ''(no sources retrieved)'')"

definition rules_preamble :: string where
  "rules_preamble =
     ''You are a retrieval-augmented assistant.\<newline>''
     @ ''Rules:\<newline>''
     @ ''1) Use ONLY the provided Sources for factual claims.\<newline>''
     @ ''2) If Sources are insufficient, say what is missing and what you would check next.\<newline>''
     @ ''3) When you cite a source, cite it inline like [1], [2].\<newline>''
     @ ''4) Do not invent URLs, quotes, or document titles.\<newline>\<newline>''"

definition prompt_level :: "string \<Rightarrow> DetailLevel option \<Rightarrow> DetailLevel" where
  \<comment> \<open>\<open>level = detail_level or classify_detail_level(user_message)\<close>: the three level
      strings are non-empty, so only \<open>None\<close> falls through to the classifier\<close>
  "prompt_level user_message detail_level =
     (case detail_level of Some l \<Rightarrow> l | None \<Rightarrow> classify_detail_level user_message)"

definition build_prompt :: "string \<Rightarrow> source_record list \<Rightarrow> DetailLevel option \<Rightarrow> string" where
  "build_prompt user_message sources detail_level =
     (let level = prompt_level user_message detail_level;
          context = context_block sources
      in rules_preamble
         @ ''Response style:\<newline>'' @ detail_instructions level @ ''\<newline>''
         @ ''Detail level selected: '' @ level_name level @ ''\<newline>\<newline>''
         @ ''Sources:\<newline>'' @ context @ ''\<newline>\<newline>''
         @ ''User question:\<newline>'' @ user_message @ ''\<newline>\<newline>''
         @ ''Answer:\<newline>'')"

section \<open>Request schema of the chat endpoints (schemas.py)\<close>

text \<open>
  A field of the JSON request body is left out, sent as \<open>null\<close>, or sent with a value.
  \<open>ChatIn\<close> declares \<open>detail_level: Optional[Literal[...]] = "standard"\<close>: the default
  applies to a field that is left out, \<open>null\<close> is accepted and stays \<open>None\<close>. The message
  must have between 2 and 2000 characters.
\<close>

datatype 'a body_field = Omitted | Null | Given 'a

record ChatIn =
  message :: string
  detail_level :: "DetailLevel option"

definition parse_ChatIn :: "string \<Rightarrow> DetailLevel body_field \<Rightarrow> py_exn + ChatIn" where
  "parse_ChatIn msg lvl =
     (if length msg < 2 \<or> 2000 < length msg then Inl ValidationError
      else Inr \<lparr>message = msg,
                detail_level = (case lvl of Omitted \<Rightarrow> Some Standard | Null \<Rightarrow> None
                                | Given l \<Rightarrow> Some l)\<rparr>)"

definition request_prompt_level :: "ChatIn \<Rightarrow> DetailLevel" where
  \<comment> \<open>the level of the prompt that \<open>/chat\<close>, \<open>/debug/chat\<close> and \<open>/debug/prompt\<close> build:
      they pass \<open>payload.message\<close> and \<open>payload.detail_level\<close> to \<open>build_prompt\<close>\<close>
  "request_prompt_level payload = prompt_level (message payload) (detail_level payload)"

section \<open>Embedding client (embeddings.py)\<close>

text \<open>
  The embedding service is an input of the model: for a list of texts, the HTTP exchange
  either fails before any response (\<open>client.post\<close> raises), or answers with a status on
  which \<open>raise_for_status\<close> raises, or answers successfully. The body of a successful answer
  is not JSON (\<open>r.json()\<close> raises) or is a JSON value of any shape. A JSON object is the
  list of its members in the order of the document; as in Python's decoder, the last
  member with a given name counts.
\<close>

datatype reply_body = NotJson | Json json

datatype http_reply = NoResponse | ErrorStatus nat | Success reply_body

fun truthy :: "json \<Rightarrow> bool" where
  \<comment> \<open>the truth value that Python gives the decoded value\<close>
  "truthy JNull = False"
| "truthy (JBool b) = b"
| "truthy (JNum x) = (x \<noteq> 0)"
| "truthy (JStr s) = (s \<noteq> [])"
| "truthy (JArr xs) = (xs \<noteq> [])"
| "truthy (JObj kvs) = (kvs \<noteq> [])"

definition dict_get :: "(string \<times> json) list \<Rightarrow> string \<Rightarrow> json" where
  \<comment> \<open>\<open>data.get(key)\<close> on a decoded object: \<open>None\<close>, which is also what \<open>null\<close> decodes
      to, when there is no such member\<close>
  "dict_get kvs key = (case map_of (rev kvs) key of None \<Rightarrow> JNull | Some v \<Rightarrow> v)"

definition embed_texts :: "(string list \<Rightarrow> http_reply) \<Rightarrow> string list \<Rightarrow> py_exn + json" where
  \<comment> \<open>a decoded body that is not an object has no \<open>get\<close>: \<open>AttributeError\<close>; the value
      returned is the \<open>embeddings\<close> member as decoded, whatever its shape\<close>
  "embed_texts service texts =
     (case service texts of
        NoResponse \<Rightarrow> Inl TransportError
      | ErrorStatus st \<Rightarrow> Inl (HTTPStatusError st)
      | Success NotJson \<Rightarrow> Inl JSONDecodeError
      | Success (Json data) \<Rightarrow>
          (case data of
             JObj kvs \<Rightarrow>
               (let got = dict_get kvs ''embeddings'';
                    embeddings = (if truthy got then got else JArr [])
                in if \<not> truthy embeddings then Inl RuntimeError else Inr embeddings)
           | _ \<Rightarrow> Inl AttributeError))"

section \<open>Retrieval (rag.py)\<close>

record rag_config =
  RAG_TOP_K :: int
  RAG_MAX_SOURCE_CHARS :: int

definition default_rag_config :: rag_config where
  \<comment> \<open>the values used when the environment sets neither variable\<close>
  "default_rag_config = \<lparr>RAG_TOP_K = 4, RAG_MAX_SOURCE_CHARS = 800\<rparr>"

definition or_int :: "int option \<Rightarrow> int \<Rightarrow> int" where
  \<comment> \<open>\<open>k or d\<close> for an optional integer: \<open>None\<close> and \<open>0\<close> are falsy\<close>
  "or_int k d = (case k of None \<Rightarrow> d | Some n \<Rightarrow> if n = 0 then d else n)"

definition or_str :: "string option \<Rightarrow> string \<Rightarrow> string" where
  \<comment> \<open>\<open>v or d\<close> for an optional string: \<open>None\<close> and the empty string are falsy\<close>
  "or_str v d = (case v of None \<Rightarrow> d | Some s \<Rightarrow> if s = [] then d else s)"

definition slice_to :: "int \<Rightarrow> 'a list \<Rightarrow> 'a list" where
  \<comment> \<open>\<open>xs[:n]\<close>; a negative \<open>n\<close> counts from the end\<close>
  "slice_to n xs = (if 0 \<le> n then take (nat n) xs else take (length xs - nat (- n)) xs)"

record search_call =
  anns_field :: string
  metric_type :: string
  ef :: int
  limit :: int
  expr :: "string option"
  output_fields :: "string list"

text \<open>
  A hit of the store: \<open>entity.get(f)\<close> is \<open>entity h f\<close>, with \<open>None\<close> for a column that
  is absent or holds \<open>None\<close>; the columns read here are VARCHAR columns (ASCII text in this
  model, one \<open>char\<close> for each character), the score is a float.
\<close>

record hit =
  entity :: "string \<rightharpoonup> string"
  score :: real

definition rag_search_call :: "rag_config \<Rightarrow> int option \<Rightarrow> search_call" where
  \<comment> \<open>the arguments of \<open>collection.search\<close> in \<open>retrieve_sources\<close>, after \<open>k = k or RAG_TOP_K\<close>\<close>
  "rag_search_call cfg k0 =
     (let k = or_int k0 (RAG_TOP_K cfg)
      in \<lparr>anns_field = ''embedding'', metric_type = ''COSINE'', ef = max (k * 4) 64,
          limit = k, expr = None,
          output_fields = [''text'', ''title'', ''url'', ''source'', ''published_date'', ''tags'']\<rparr>)"

definition parse_tags :: "(string \<Rightarrow> py_exn + json) \<Rightarrow> string \<Rightarrow> py_exn + json" where
  \<comment> \<open>the \<open>try\<close> block around \<open>json.loads(raw_tags)\<close>, the same in \<open>retrieve_sources\<close> and
      in \<open>query_memory\<close>: \<open>json_loads\<close> is the JSON decoder, \<open>Inl\<close> what it raises; the
      \<open>except\<close> clause catches \<open>JSONDecodeError\<close> and \<open>TypeError\<close> and nothing else\<close>
  "parse_tags json_loads raw_tags =
     (case json_loads raw_tags of
        Inr v \<Rightarrow> Inr v
      | Inl e \<Rightarrow> if e = JSONDecodeError \<or> e = TypeError then Inr (JArr []) else Inl e)"

definition normalize_hit :: "rag_config \<Rightarrow> (string \<Rightarrow> py_exn + json) \<Rightarrow> hit \<Rightarrow> py_exn + source_record" where
  \<comment> \<open>the body of the loop over the hits in \<open>retrieve_sources\<close>\<close>
  "normalize_hit cfg json_loads h =
     (let raw_tags = or_str (entity h ''tags'') ''[]''
      in case parse_tags json_loads raw_tags of
           Inl e \<Rightarrow> Inl e
         | Inr tgs \<Rightarrow>
             (let full_text = or_str (entity h ''text'') []
              in Inr \<lparr>title = or_str (entity h ''title'') [],
                      url = or_str (entity h ''url'') [],
                      source = or_str (entity h ''source'') [],
                      published_date = or_str (entity h ''published_date'') [],
                      tags = tgs,
                      distance = score h,
                      snippet = slice_to (RAG_MAX_SOURCE_CHARS cfg) full_text\<rparr>))"

fun normalize_hits :: "rag_config \<Rightarrow> (string \<Rightarrow> py_exn + json) \<Rightarrow> hit list \<Rightarrow> py_exn + source_record list" where
  "normalize_hits cfg json_loads [] = Inr []"
| "normalize_hits cfg json_loads (h # hs) =
     (case normalize_hit cfg json_loads h of
        Inl e \<Rightarrow> Inl e
      | Inr s \<Rightarrow> (case normalize_hits cfg json_loads hs of
                    Inl e \<Rightarrow> Inl e
                  | Inr ss \<Rightarrow> Inr (s # ss)))"

definition index0 :: "json \<Rightarrow> py_exn + json" where
  \<comment> \<open>\<open>vectors[0]\<close> on a decoded value\<close>
  "index0 v =
     (case v of
        JArr xs \<Rightarrow> (case xs of [] \<Rightarrow> Inl IndexError | x # _ \<Rightarrow> Inr x)
      | JStr s \<Rightarrow> (case s of [] \<Rightarrow> Inl IndexError | c # _ \<Rightarrow> Inr (JStr [c]))
      | JObj kvs \<Rightarrow> Inl KeyError
      | _ \<Rightarrow> Inl TypeError)"

definition retrieve_sources ::
  "rag_config \<Rightarrow> (string list \<Rightarrow> http_reply) \<Rightarrow> (json \<Rightarrow> search_call \<Rightarrow> py_exn + hit list)
   \<Rightarrow> (string \<Rightarrow> py_exn + json) \<Rightarrow> string \<Rightarrow> int option \<Rightarrow> py_exn + source_record list" where
  \<comment> \<open>\<open>search qvec call\<close> stands for \<open>ensure_collection\<close> followed by
      \<open>collection.search(data=[qvec], ...)[0]\<close> with the arguments \<open>call\<close>: the store is
      asked once, with these arguments, and its hits are normalised\<close>
  "retrieve_sources cfg service search json_loads query k =
     (case embed_texts service [query] of
        Inl e \<Rightarrow> Inl e
      | Inr vectors \<Rightarrow>
          (case index0 vectors of
             Inl e \<Rightarrow> Inl e
           | Inr qvec \<Rightarrow>
               (case search qvec (rag_search_call cfg k) of
                  Inl e \<Rightarrow> Inl e
                | Inr hits \<Rightarrow> normalize_hits cfg json_loads hits)))"

text \<open>
  An embedding service that answers one vector, a store that has one hit for a search
  with limit 4 and breadth 64 and none for any other search, and a decoder that accepts
  the empty list only; a tags column of 1000 opening brackets, and a decoder that raises
  \<open>RecursionError\<close> on it, as \<open>json.loads\<close> does.
\<close>

definition one_vector_service :: "string list \<Rightarrow> http_reply" where
  "one_vector_service ts = Success (Json (JObj [(''embeddings'', JArr [JArr [JNum 1, JNum 2]])]))"

definition limit_probe_search :: "json \<Rightarrow> search_call \<Rightarrow> py_exn + hit list" where
  "limit_probe_search qvec call =
     (if limit call = 4 \<and> ef call = 64 then Inr [\<lparr>entity = [''title'' \<mapsto> ''T''], score = 1\<rparr>]
      else Inr [])"

definition empty_list_decoder :: "string \<Rightarrow> py_exn + json" where
  "empty_list_decoder s = (if s = ''[]'' then Inr (JArr []) else Inl JSONDecodeError)"



section \<open>Vector store (milvus_client.py)\<close>

datatype DataType = INT64 | FLOAT_VECTOR nat | VARCHAR nat

record FieldSchema =
  name :: string
  dtype :: DataType
  is_primary :: bool
  auto_id :: bool

record CollectionSchema =
  schema_fields :: "FieldSchema list"
  description :: string
  enable_dynamic_field :: bool

record index_params =
  index_metric_type :: string
  index_type :: string
  M :: int
  efConstruction :: int

text \<open>
  The state of the Milvus server as the client sees it: whether it can be reached, the
  collections by name, and a log of the requests that change it. A collection holds its
  schema, its indexes (field name and parameters) and whether it is loaded.
\<close>

record collection =
  schema :: CollectionSchema
  indexes :: "(string \<times> index_params) list"
  loaded :: bool

datatype event = CreateCollection string | CreateIndex string | Load string

record milvus =
  reachable :: bool
  collections :: "string \<rightharpoonup> collection"
  events :: "event list"

record milvus_config =
  MILVUS_COLLECTION :: string
  EMBEDDINGS_DIM :: nat
  HNSW_M :: int
  HNSW_EF_CONSTRUCT :: int

definition default_milvus_config :: milvus_config where
  "default_milvus_config =
     \<lparr>MILVUS_COLLECTION = ''LabDoc'', EMBEDDINGS_DIM = 768, HNSW_M = 16,
      HNSW_EF_CONSTRUCT = 200\<rparr>"

definition connect :: "milvus \<Rightarrow> py_exn + unit" where
  \<comment> \<open>\<open>_connect\<close>: re-raises what \<open>connections.connect\<close> raises\<close>
  "connect st = (if reachable st then Inr () else Inl MilvusException)"

definition em_dash :: string where
  \<comment> \<open>U+2014 as its UTF-8 bytes\<close>
  "em_dash = [CHR 0xE2, CHR 0x80, CHR 0x94]"

definition varchar_field :: "string \<Rightarrow> nat \<Rightarrow> FieldSchema" where
  "varchar_field n len = \<lparr>name = n, dtype = VARCHAR len, is_primary = False, auto_id = False\<rparr>"

definition build_schema :: "milvus_config \<Rightarrow> CollectionSchema" where
  "build_schema cfg =
     \<lparr>schema_fields =
        [\<lparr>name = ''id'', dtype = INT64, is_primary = True, auto_id = False\<rparr>,
         \<lparr>name = ''embedding'', dtype = FLOAT_VECTOR (EMBEDDINGS_DIM cfg), is_primary = False,
          auto_id = False\<rparr>,
         varchar_field ''text'' 65535,
         varchar_field ''title'' 1024,
         varchar_field ''url'' 2048,
         varchar_field ''source'' 512,
         varchar_field ''published_date'' 64,
         varchar_field ''tags'' 2048],
      description = ''RAG lab document collection '' @ em_dash @ '' Milvus version'',
      enable_dynamic_field = True\<rparr>"

definition hnsw_index :: "milvus_config \<Rightarrow> index_params" where
  "hnsw_index cfg =
     \<lparr>index_metric_type = ''COSINE'', index_type = ''HNSW'', M = HNSW_M cfg,
      efConstruction = HNSW_EF_CONSTRUCT cfg\<rparr>"

definition ensure_index :: "milvus_config \<Rightarrow> string \<Rightarrow> milvus \<Rightarrow> milvus" where
  \<comment> \<open>\<open>_ensure_index\<close> on the collection named \<open>nm\<close>: nothing when it has an index\<close>
  "ensure_index cfg nm st =
     (case collections st nm of
        None \<Rightarrow> st
      | Some c \<Rightarrow>
          if indexes c \<noteq> [] then st
          else st\<lparr>collections := (collections st)
                      (nm \<mapsto> c\<lparr>indexes := [(''embedding'', hnsw_index cfg)]\<rparr>),
                  events := events st @ [CreateIndex nm]\<rparr>)"

definition load :: "string \<Rightarrow> milvus \<Rightarrow> milvus" where
  "load nm st =
     (case collections st nm of
        None \<Rightarrow> st
      | Some c \<Rightarrow> st\<lparr>collections := (collections st)(nm \<mapsto> c\<lparr>loaded := True\<rparr>),
                     events := events st @ [Load nm]\<rparr>)"

definition ensure_collection :: "milvus_config \<Rightarrow> milvus \<Rightarrow> py_exn + (string \<times> milvus)" where
  \<comment> \<open>returns the handle (the collection's name) and the new state of the server\<close>
  "ensure_collection cfg st =
     (case connect st of
        Inl e \<Rightarrow> Inl e
      | Inr _ \<Rightarrow>
          (let nm = MILVUS_COLLECTION cfg;
               st1 = (if collections st nm = None
                      then st\<lparr>collections := (collections st)
                                  (nm \<mapsto> \<lparr>schema = build_schema cfg, indexes = [],
                                          loaded = False\<rparr>),
                              events := events st @ [CreateCollection nm]\<rparr>
                      else st);
               st2 = ensure_index cfg nm st1;
               st3 = load nm st2
           in Inr (nm, st3)))"

section \<open>Chat orchestrator (main.py)\<close>

record chat_config =
  RETRIEVE_TIMEOUT_S :: real
  PROMPT_TIMEOUT_S :: real
  OLLAMA_TIMEOUT_S :: real
  CHAT_TOTAL_TIMEOUT_S :: real

definition default_chat_config :: chat_config where
  "default_chat_config =
     \<lparr>RETRIEVE_TIMEOUT_S = 10, PROMPT_TIMEOUT_S = 5, OLLAMA_TIMEOUT_S = 120,
      CHAT_TOTAL_TIMEOUT_S = 180\<rparr>"

text \<open>
  Time is a real number of seconds. What an awaited coroutine does when nothing
  interrupts it is an input of the model: it returns a value or raises after some time,
  or it never finishes. \<open>asyncio.wait_for\<close> lets it run for at most \<open>timeout\<close>
  seconds: a coroutine that has not finished by then is cancelled and \<open>TimeoutError\<close> is
  raised at that moment.
\<close>

datatype 'a awaited = Returns real 'a | Raises real py_exn | Never

datatype 'a outcome = Done real 'a | Failed real py_exn

definition wait_for :: "real \<Rightarrow> 'a awaited \<Rightarrow> 'a outcome" where
  "wait_for timeout a =
     (case a of
        Returns d v \<Rightarrow> if d \<le> timeout then Done d v else Failed timeout TimeoutError
      | Raises d e \<Rightarrow> if d \<le> timeout then Failed d e else Failed timeout TimeoutError
      | Never \<Rightarrow> Failed timeout TimeoutError)"

definition as_awaited :: "'a outcome \<Rightarrow> 'a awaited" where
  "as_awaited x = (case x of Done d v \<Rightarrow> Returns d v | Failed d e \<Rightarrow> Raises d e)"

record timing_ms =
  t_retrieve :: real
  t_prompt :: real
  t_generate :: real
  t_total :: real

record chat_result =
  answer :: string
  sources :: "source_record list"
  timing :: timing_ms
  prompt_chars :: nat

text \<open>
  The two awaited services of a chat: retrieval of the sources for a message and
  generation of an answer for a prompt; \<open>prompt_seconds\<close> is the time that the worker
  thread takes to build the prompt. The times of \<open>_timing_ms\<close> are kept exact (the code
  rounds them to one decimal).
\<close>

record chat_env =
  retrieve :: "string \<Rightarrow> source_record list awaited"
  prompt_seconds :: real
  generate :: "string \<Rightarrow> string awaited"

definition chat_impl ::
  "chat_config \<Rightarrow> chat_env \<Rightarrow> string \<Rightarrow> DetailLevel option \<Rightarrow> chat_result outcome" where
  \<comment> \<open>\<open>_chat_impl\<close>: three stages in sequence, each under its own \<open>wait_for\<close>\<close>
  "chat_impl cfg env msg lvl =
     (case wait_for (RETRIEVE_TIMEOUT_S cfg) (retrieve env msg) of
        Failed t e \<Rightarrow> Failed t e
      | Done t_retr srcs \<Rightarrow>
          (case wait_for (PROMPT_TIMEOUT_S cfg)
                  (Returns (prompt_seconds env) (build_prompt msg srcs lvl)) of
             Failed t e \<Rightarrow> Failed (t_retr + t) e
           | Done t_pr prompt \<Rightarrow>
               (case wait_for (OLLAMA_TIMEOUT_S cfg) (generate env prompt) of
                  Failed t e \<Rightarrow> Failed (t_retr + t_pr + t) e
                | Done t_llm ans \<Rightarrow>
                    Done (t_retr + t_pr + t_llm)
                      \<lparr>answer = ans, sources = srcs,
                       timing = \<lparr>t_retrieve = t_retr * 1000, t_prompt = t_pr * 1000,
                                 t_generate = t_llm * 1000,
                                 t_total = (t_retr + t_pr + t_llm) * 1000\<rparr>,
                       prompt_chars = length prompt\<rparr>)))"

definition require_api_key :: "string \<Rightarrow> string option \<Rightarrow> py_exn + unit" where
  \<comment> \<open>the server's key and the \<open>X-API-Key\<close> header of the request\<close>
  "require_api_key edge_api_key header =
     (let incoming = (case header of None \<Rightarrow> [] | Some h \<Rightarrow> h)
      in if edge_api_key = [] then Inl (HTTPException 500 ''EDGE_API_KEY is not set on the server.'')
         else if incoming = [] then Inl (HTTPException 401 ''Missing X-API-Key header.'')
         else if incoming \<noteq> edge_api_key then Inl (HTTPException 403 ''Invalid API key.'')
         else Inr ())"

definition chat ::
  "chat_config \<Rightarrow> chat_env \<Rightarrow> (py_exn \<Rightarrow> string) \<Rightarrow> string \<Rightarrow> string option \<Rightarrow> ChatIn
   \<Rightarrow> py_exn + (string \<times> source_record list)" where
  \<comment> \<open>the \<open>/chat\<close> handler; \<open>str_of\<close> is the text \<open>str(e)\<close> of an exception; the request
      counters are left out\<close>
  "chat cfg env str_of edge_api_key header payload =
     (case require_api_key edge_api_key header of
        Inl e \<Rightarrow> Inl e
      | Inr _ \<Rightarrow>
          (case wait_for (CHAT_TOTAL_TIMEOUT_S cfg)
                  (as_awaited (chat_impl cfg env (message payload) (detail_level payload))) of
             Done t result \<Rightarrow> Inr (answer result, sources result)
           | Failed t e \<Rightarrow>
               if e = TimeoutError then Inl (HTTPException 504 ''Chat timed out.'')
               else Inl (HTTPException 500 (str_of e))))"

definition exceeds :: "real \<Rightarrow> 'a awaited \<Rightarrow> bool" where
  \<comment> \<open>the coroutine has not finished after \<open>timeout\<close> seconds\<close>
  "exceeds timeout a =
     (case a of Returns d v \<Rightarrow> timeout < d | Raises d e \<Rightarrow> timeout < d | Never \<Rightarrow> True)"

text \<open>
  Two runs used below. In the first, generation takes 130 seconds against its budget of
  120, after a retrieval of one second. In the second, every stage stays within its own
  budget (9, 0 and 100 seconds), but the total budget is configured to 100 seconds.
\<close>

definition slow_generation_env :: chat_env where
  "slow_generation_env =
     \<lparr>retrieve = (\<lambda>q. Returns 1 []), prompt_seconds = 0,
      generate = (\<lambda>p. Returns 130 ''late answer'')\<rparr>"

definition slow_total_env :: chat_env where
  "slow_total_env =
     \<lparr>retrieve = (\<lambda>q. Returns 9 []), prompt_seconds = 0,
      generate = (\<lambda>p. Returns 100 ''answer'')\<rparr>"

definition tight_total_config :: chat_config where
  "tight_total_config = default_chat_config\<lparr>CHAT_TOTAL_TIMEOUT_S := 100\<rparr>"

section \<open>Tag filter of the security memory (security_memory/store.py)\<close>

definition dquote :: char where
  "dquote = CHR 0x22"

definition squote :: char where
  "squote = CHR 0x27"

definition like_pattern :: "string \<Rightarrow> string" where
  \<comment> \<open>the pattern of the clause for one tag: the tag between double quotes, between two
      \<open>%\<close>\<close>
  "like_pattern tag = ''%'' @ [dquote] @ tag @ [dquote] @ ''%''"

definition tag_clause :: "string \<Rightarrow> string" where
  "tag_clause tag = ''tags like '' @ [squote] @ like_pattern tag @ [squote]"

definition tag_filter_expr :: "string list option \<Rightarrow> string option" where
  \<comment> \<open>the \<open>expr\<close> that \<open>query_memory\<close> passes to the search, from \<open>payload.tags\<close>\<close>
  "tag_filter_expr tgs =
     (case tgs of
        None \<Rightarrow> None
      | Some ts \<Rightarrow> if ts = [] then None else Some (join '' or '' (map tag_clause ts)))"

text \<open>
  The store evaluates the expression on each row. \<open>like\<close> is the pattern match of SQL:
  \<open>%\<close> stands for any run of characters, \<open>_\<close> for any one character, every other
  character for itself (escapes are not modelled; the properties below are about tags
  without \<open>%\<close>, \<open>_\<close>, backslash and single quote). A row passes an \<open>or\<close> of clauses when
  its \<open>tags\<close> column matches the pattern of one of them.
\<close>

fun like_match :: "string \<Rightarrow> string \<Rightarrow> bool" where
  "like_match [] s = (s = [])"
| "like_match (p # ps) [] = (p = CHR ''%'' \<and> like_match ps [])"
| "like_match (p # ps) (c # cs) =
     (if p = CHR ''%'' then like_match ps (c # cs) \<or> like_match (p # ps) cs
      else (p = CHR ''_'' \<or> p = c) \<and> like_match ps cs)"

definition row_passes :: "string list \<Rightarrow> string \<Rightarrow> bool" where
  "row_passes ts tags_column = list_ex (\<lambda>tag. like_match (like_pattern tag) tags_column) ts"

definition plain_tag :: "string \<Rightarrow> bool" where
  "plain_tag tag = list_all (\<lambda>c. c \<notin> set [CHR ''%'', CHR ''_'', CHR 0x5C, CHR 0x27]) tag"

section \<open>Properties of the classifier\<close>

lemma advanced_score_Nil: "advanced_score [] = 0"
  by code_simp

lemma advanced_score_no_content:
  assumes "\<not> content_signal m"
  shows "advanced_score m \<le> 1"
  using assms by (simp add: advanced_score_def signal_weights_def content_signal_def)

lemma advanced_score_order_independent:
  assumes "mset ws = mset (signal_weights m)"
  shows "sum_list ws = advanced_score m"
proof -
  have "sum_list ws = sum_mset (mset ws)"
    by (simp add: sum_mset_sum_list)
  also have "\<dots> = sum_mset (mset (signal_weights m))"
    using assms by simp
  also have "\<dots> = advanced_score m"
    by (simp add: sum_mset_sum_list advanced_score_def)
  finally show ?thesis .
qed

lemma docker_run_signals:
  "strip ''docker run -it ubuntu'' = ''docker run -it ubuntu''
   \<and> signal_weights ''docker run -it ubuntu'' = [0, 2, 0, 0, 0, 0]
   \<and> has_cli ''docker run -it ubuntu''
   \<and> \<not> long_or_multi ''docker run -it ubuntu''"
  by code_simp

lemma why_how_signals:
  "strip ''why? how?'' = ''why? how?''
   \<and> signal_weights ''why? how?'' = [0, 0, 0, 0, 0, 1]
   \<and> \<not> content_signal ''why? how?''
   \<and> long_or_multi ''why? how?''"
  by code_simp

text \<open>
  C2 (as stated, refuted). The specification expects the query
  \<open>docker run -it ubuntu\<close> to reach a score of at least 3 and the level \<open>advanced\<close>.
  On the code this does not hold.
\<close>

theorem classify_docker_run_counterexample:
  "\<not> (3 \<le> advanced_score (strip ''docker run -it ubuntu'')
      \<and> classify_detail_level ''docker run -it ubuntu'' = Advanced)"
  using docker_run_signals by (simp add: advanced_score_def)

text \<open>
  C2 (amended). For the query \<open>docker run -it ubuntu\<close> only the CLI signal fires: the
  structural signal does not (21 characters, no question mark, no newline), the score is
  2, and the classifier returns \<open>standard\<close>.
\<close>

theorem classify_docker_run_standard:
  "has_cli (strip ''docker run -it ubuntu'')
   \<and> \<not> long_or_multi (strip ''docker run -it ubuntu'')
   \<and> advanced_score (strip ''docker run -it ubuntu'') = 2
   \<and> classify_detail_level ''docker run -it ubuntu'' = Standard"
  using docker_run_signals
  by (simp add: advanced_score_def classify_detail_level_def content_signal_def)

text \<open>
  C5 (as stated, refuted). The specification's rule lets the structural signal (two
  question marks, three newlines, more than 180 characters) block \<open>basic\<close>. The code
  does not consult it there: a short query with two question marks is \<open>basic\<close>.
\<close>

theorem classify_structural_counterexample:
  "long_or_multi (strip ''why? how?'')
   \<and> classify_detail_level ''why? how?'' = Basic
   \<and> spec_decision_rule ''why? how?'' = Standard"
  using why_how_signals
  by (simp add: advanced_score_def classify_detail_level_def spec_decision_rule_def)

text \<open>
  C5 (amended). For every ASCII query string, with \<open>m\<close> the trimmed string: the classifier
  returns \<open>advanced\<close> exactly when the signal sum of \<open>m\<close> is at least 3; it returns
  \<open>basic\<close> exactly when \<open>m\<close> is empty, or \<open>m\<close> has at most 60 characters and none of
  the five content signals (code block, CLI, logs, protocols, acronyms) fired, the
  structural signal not being consulted; and it returns \<open>standard\<close> in every other case.
\<close>

theorem classify_decision_rule:
  assumes "is_ascii q"
  shows "(classify_detail_level q = Advanced \<longleftrightarrow> 3 \<le> advanced_score (strip q))
   \<and> (classify_detail_level q = Basic \<longleftrightarrow>
        strip q = [] \<or> (length (strip q) \<le> 60 \<and> \<not> content_signal (strip q)))
   \<and> (classify_detail_level q = Standard \<longleftrightarrow>
        strip q \<noteq> [] \<and> advanced_score (strip q) < 3
        \<and> (60 < length (strip q) \<or> content_signal (strip q)))"
proof (cases "strip q = []")
  case True
  then show ?thesis
    by (simp add: classify_detail_level_def Let_def advanced_score_Nil)
next
  case False
  show ?thesis
  proof (cases "3 \<le> advanced_score (strip q)")
    case True
    with advanced_score_no_content [of "strip q"] have "content_signal (strip q)"
      by fastforce
    with True False show ?thesis
      by (simp add: classify_detail_level_def Let_def)
  next
    case False
    with \<open>strip q \<noteq> []\<close> show ?thesis
      by (auto simp add: classify_detail_level_def Let_def)
  qed
qed

theorem classify_decision_rule_witness:
  "classify_detail_level ''What does TLS do?'' = Standard
   \<and> classify_detail_level ''why? how?'' = Basic"
proof -
  have a: "strip ''What does TLS do?'' \<noteq> []
      \<and> has_acronyms (strip ''What does TLS do?'')
      \<and> advanced_score (strip ''What does TLS do?'') < 3"
    by code_simp
  have c: "length (strip ''why? how?'') \<le> 60 \<and> \<not> content_signal (strip ''why? how?'')"
    using why_how_signals by simp
  have x: "is_ascii ''What does TLS do?''"
    by code_simp
  have y: "is_ascii ''why? how?''"
    by code_simp
  show ?thesis
    using a c classify_decision_rule [OF x] classify_decision_rule [OF y]
    by (simp add: content_signal_def)
qed

section \<open>Properties of the prompt builder\<close>

lemma build_prompt_level:
  "build_prompt q srcs lvl =
     rules_preamble @ ''Response style:\<newline>''
     @ detail_instructions (prompt_level q lvl)
     @ ''\<newline>Detail level selected: ''
     @ level_name (prompt_level q lvl)
     @ ''\<newline>\<newline>Sources:\<newline>'' @ context_block srcs
     @ ''\<newline>\<newline>User question:\<newline>'' @ q @ ''\<newline>\<newline>Answer:\<newline>''"
  by (simp add: build_prompt_def Let_def)

text \<open>
  C6. \<open>build_prompt\<close> is a function of (question, sources, tier): equal arguments give
  equal output. For a fixed question and fixed sources, the outputs for all tiers share
  one prefix (the rules preamble and the heading of the style block), one middle part
  (the label of the \<open>Detail level selected\<close> line) and one suffix (the rendered
  source block, the verbatim question and the answer cue); they differ only in the
  style-instruction block and in the tier name on the \<open>Detail level selected\<close> line.
\<close>

theorem build_prompt_tier_only:
  "(q = q' \<and> srcs = srcs' \<and> t = t' \<longrightarrow> build_prompt q srcs t = build_prompt q' srcs' t')
   \<and> (\<exists>pre mid post.
         pre = rules_preamble @ ''Response style:\<newline>''
       \<and> mid = ''\<newline>Detail level selected: ''
       \<and> post = ''\<newline>\<newline>Sources:\<newline>'' @ context_block srcs
                @ ''\<newline>\<newline>User question:\<newline>'' @ q
                @ ''\<newline>\<newline>Answer:\<newline>''
       \<and> (\<forall>tier. build_prompt q srcs (Some tier)
                    = pre @ detail_instructions tier @ mid @ level_name tier @ post))"
proof (intro conjI)
  show "q = q' \<and> srcs = srcs' \<and> t = t' \<longrightarrow> build_prompt q srcs t = build_prompt q' srcs' t'"
    by simp
next
  have level: "prompt_level q (Some tier) = tier" for tier
    by (simp add: prompt_level_def)
  have "build_prompt q srcs (Some tier)
          = (rules_preamble @ ''Response style:\<newline>'') @ detail_instructions tier
            @ ''\<newline>Detail level selected: '' @ level_name tier
            @ (''\<newline>\<newline>Sources:\<newline>'' @ context_block srcs
               @ ''\<newline>\<newline>User question:\<newline>'' @ q
               @ ''\<newline>\<newline>Answer:\<newline>'')" for tier
    using build_prompt_level [of q srcs "Some tier"] by (simp add: level)
  then show "\<exists>pre mid post.
         pre = rules_preamble @ ''Response style:\<newline>''
       \<and> mid = ''\<newline>Detail level selected: ''
       \<and> post = ''\<newline>\<newline>Sources:\<newline>'' @ context_block srcs
                @ ''\<newline>\<newline>User question:\<newline>'' @ q
                @ ''\<newline>\<newline>Answer:\<newline>''
       \<and> (\<forall>tier. build_prompt q srcs (Some tier)
                    = pre @ detail_instructions tier @ mid @ level_name tier @ post)"
    by simp
qed

theorem build_prompt_tier_only_witness:
  "build_prompt ''hi'' [] (Some Basic) = build_prompt ''hi'' [] (Some Basic)
   \<and> (\<exists>pre mid post.
        build_prompt ''hi'' [] (Some Basic)
          = pre @ detail_instructions Basic @ mid @ level_name Basic @ post
      \<and> build_prompt ''hi'' [] (Some Advanced)
          = pre @ detail_instructions Advanced @ mid @ level_name Advanced @ post)"
  using build_prompt_tier_only [of "''hi''" "''hi''" "[]" "[]" "Some Basic" "Some Basic"]
  by blast

text \<open>
  C3 (as stated, refuted). A request that leaves \<open>detail_level\<close> out does not reach the
  classifier: the schema default \<open>standard\<close> is used, also where the classifier would
  say \<open>basic\<close>.
\<close>

theorem omitted_level_counterexample:
  "parse_ChatIn ''hi'' Omitted = Inr \<lparr>message = ''hi'', detail_level = Some Standard\<rparr>
   \<and> request_prompt_level \<lparr>message = ''hi'', detail_level = Some Standard\<rparr> = Standard
   \<and> classify_detail_level ''hi'' = Basic"
proof -
  have "classify_detail_level ''hi'' = Basic"
    by code_simp
  then show ?thesis
    by (simp add: parse_ChatIn_def request_prompt_level_def prompt_level_def)
qed

text \<open>
  C3 (amended). For every accepted chat or prompt-build request, the detail level used in
  the prompt is: the schema default \<open>standard\<close> when the field is left out; the level
  computed by the classifier from the message when the field is sent as \<open>null\<close> (the
  only case that reaches the classifier); and the given level otherwise.
\<close>

theorem request_level_by_field:
  assumes "parse_ChatIn msg lvl = Inr payload"
  shows "request_prompt_level payload =
           (case lvl of Omitted \<Rightarrow> Standard
            | Null \<Rightarrow> classify_detail_level msg
            | Given l \<Rightarrow> l)"
  using assms
  by (auto simp add: parse_ChatIn_def request_prompt_level_def prompt_level_def
      split: if_splits body_field.splits)

theorem request_level_by_field_witness:
  "parse_ChatIn ''hi'' Null = Inr \<lparr>message = ''hi'', detail_level = None\<rparr>
   \<and> request_prompt_level \<lparr>message = ''hi'', detail_level = None\<rparr>
       = classify_detail_level ''hi''"
proof -
  have p: "parse_ChatIn ''hi'' Null = Inr \<lparr>message = ''hi'', detail_level = None\<rparr>"
    by (simp add: parse_ChatIn_def)
  show ?thesis
    using p request_level_by_field [OF p] by simp
qed

section \<open>Properties of the embedding client\<close>

lemma embed_texts_object:
  "embed_texts service texts =
     (case service texts of
        NoResponse \<Rightarrow> Inl TransportError
      | ErrorStatus st \<Rightarrow> Inl (HTTPStatusError st)
      | Success NotJson \<Rightarrow> Inl JSONDecodeError
      | Success (Json data) \<Rightarrow>
          (case data of
             JObj kvs \<Rightarrow> if truthy (dict_get kvs ''embeddings'')
                         then Inr (dict_get kvs ''embeddings'') else Inl RuntimeError
           | _ \<Rightarrow> Inl AttributeError))"
  by (simp add: embed_texts_def Let_def
      split: http_reply.splits reply_body.splits json.splits)






section \<open>Properties of the retriever\<close>

lemma parse_tags_caught:
  assumes "json_loads raw = Inl e" and "e = JSONDecodeError \<or> e = TypeError"
  shows "parse_tags json_loads raw = Inr (JArr [])"
  using assms by (auto simp add: parse_tags_def)






lemma rag_search_call_default:
  "rag_search_call default_rag_config k =
     \<lparr>anns_field = ''embedding'', metric_type = ''COSINE'',
      ef = max (or_int k 4 * 4) 64, limit = or_int k 4, expr = None,
      output_fields = [''text'', ''title'', ''url'', ''source'', ''published_date'', ''tags'']\<rparr>"
  by (simp add: rag_search_call_def default_rag_config_def Let_def)

lemma retrieve_sources_dispatch:
  assumes "embed_texts service [query] = Inr vectors" and "index0 vectors = Inr qvec"
  shows "retrieve_sources cfg service search json_loads query k =
           (case search qvec (rag_search_call cfg k) of
              Inl e \<Rightarrow> Inl e
            | Inr hits \<Rightarrow> normalize_hits cfg json_loads hits)"
  using assms by (simp add: retrieve_sources_def)

text \<open>
  C10. With the default configuration and a query whose embedding succeeds,
  \<open>retrieve_sources\<close> called with \<open>k = 0\<close> asks the store with limit 4 (the default top-k
  replaces the falsy value) and search breadth \<open>max (4 * 4) 64 = 64\<close>, and returns the
  normalised hits of that search; a call without \<open>k\<close> does the same; and for every \<open>k\<close>
  the limit of the search that is dispatched is not 0.
\<close>

theorem retrieve_zero_k_uses_default:
  assumes "embed_texts service [query] = Inr vectors" and "index0 vectors = Inr qvec"
  shows "retrieve_sources default_rag_config service search json_loads query (Some 0)
           = (case search qvec
                    \<lparr>anns_field = ''embedding'', metric_type = ''COSINE'',
                     ef = max (4 * 4) 64, limit = 4, expr = None,
                     output_fields = [''text'', ''title'', ''url'', ''source'',
                                      ''published_date'', ''tags'']\<rparr> of
                Inl e \<Rightarrow> Inl e
              | Inr hits \<Rightarrow> normalize_hits default_rag_config json_loads hits)
       \<and> max (4 * 4) 64 = (64 :: int)
       \<and> retrieve_sources default_rag_config service search json_loads query None
           = retrieve_sources default_rag_config service search json_loads query (Some 0)
       \<and> (\<forall>k. retrieve_sources default_rag_config service search json_loads query k
                = (case search qvec (rag_search_call default_rag_config k) of
                     Inl e \<Rightarrow> Inl e
                   | Inr hits \<Rightarrow> normalize_hits default_rag_config json_loads hits)
              \<and> limit (rag_search_call default_rag_config k) \<noteq> 0)"
proof (intro conjI allI)
  show "retrieve_sources default_rag_config service search json_loads query (Some 0)
           = (case search qvec
                    \<lparr>anns_field = ''embedding'', metric_type = ''COSINE'',
                     ef = max (4 * 4) 64, limit = 4, expr = None,
                     output_fields = [''text'', ''title'', ''url'', ''source'',
                                      ''published_date'', ''tags'']\<rparr> of
                Inl e \<Rightarrow> Inl e
              | Inr hits \<Rightarrow> normalize_hits default_rag_config json_loads hits)"
    using retrieve_sources_dispatch [OF assms, of default_rag_config search json_loads "Some 0"]
    by (simp add: rag_search_call_default or_int_def)
next
  show "max (4 * 4) 64 = (64 :: int)"
    by simp
next
  show "retrieve_sources default_rag_config service search json_loads query None
      = retrieve_sources default_rag_config service search json_loads query (Some 0)"
    by (simp add: retrieve_sources_dispatch [OF assms] rag_search_call_default or_int_def)
next
  fix k
  show "retrieve_sources default_rag_config service search json_loads query k
      = (case search qvec (rag_search_call default_rag_config k) of
           Inl e \<Rightarrow> Inl e
         | Inr hits \<Rightarrow> normalize_hits default_rag_config json_loads hits)"
    by (rule retrieve_sources_dispatch [OF assms])
next
  fix k
  show "limit (rag_search_call default_rag_config k) \<noteq> 0"
    by (simp add: rag_search_call_default or_int_def split: option.splits)
qed

theorem retrieve_zero_k_uses_default_witness:
  "retrieve_sources default_rag_config one_vector_service limit_probe_search
       empty_list_decoder ''what is TLS'' (Some 0)
     = Inr [\<lparr>title = ''T'', url = [], source = [], published_date = [], tags = JArr [],
             distance = 1, snippet = []\<rparr>]
   \<and> retrieve_sources default_rag_config one_vector_service limit_probe_search
       empty_list_decoder ''what is TLS'' None
     = Inr [\<lparr>title = ''T'', url = [], source = [], published_date = [], tags = JArr [],
             distance = 1, snippet = []\<rparr>]"
proof -
  have e: "embed_texts one_vector_service [''what is TLS''] = Inr (JArr [JArr [JNum 1, JNum 2]])"
    by (simp add: embed_texts_object one_vector_service_def dict_get_def)
  have i: "index0 (JArr [JArr [JNum 1, JNum 2]]) = Inr (JArr [JNum 1, JNum 2])"
    by (simp add: index0_def)
  have n: "normalize_hits default_rag_config empty_list_decoder
             [\<lparr>entity = [''title'' \<mapsto> ''T''], score = 1\<rparr>]
           = Inr [\<lparr>title = ''T'', url = [], source = [], published_date = [], tags = JArr [],
                   distance = 1, snippet = []\<rparr>]"
    by (simp add: normalize_hit_def parse_tags_def empty_list_decoder_def or_str_def
        slice_to_def default_rag_config_def)
  note t = retrieve_zero_k_uses_default [OF e i, of limit_probe_search empty_list_decoder]
  have z: "retrieve_sources default_rag_config one_vector_service limit_probe_search
       empty_list_decoder ''what is TLS'' (Some 0)
     = Inr [\<lparr>title = ''T'', url = [], source = [], published_date = [], tags = JArr [],
             distance = 1, snippet = []\<rparr>]"
    using t [THEN conjunct1] n by (simp add: limit_probe_search_def)
  have "retrieve_sources default_rag_config one_vector_service limit_probe_search
       empty_list_decoder ''what is TLS'' None
     = retrieve_sources default_rag_config one_vector_service limit_probe_search
       empty_list_decoder ''what is TLS'' (Some 0)"
    by (rule t [THEN conjunct2, THEN conjunct2, THEN conjunct1])
  with z show ?thesis
    by simp
qed

section \<open>Properties of the vector store\<close>

lemma ensure_collection_existing:
  assumes "reachable st" and "collections st (MILVUS_COLLECTION cfg) = Some c"
    and "indexes c \<noteq> []"
  shows "ensure_collection cfg st =
           Inr (MILVUS_COLLECTION cfg,
                st\<lparr>collections := (collections st)(MILVUS_COLLECTION cfg \<mapsto> c\<lparr>loaded := True\<rparr>),
                   events := events st @ [Load (MILVUS_COLLECTION cfg)]\<rparr>)"
  using assms
  by (simp add: ensure_collection_def connect_def ensure_index_def load_def Let_def)

lemma ensure_collection_establishes:
  assumes "ensure_collection cfg st = Inr (h, st1)"
  shows "h = MILVUS_COLLECTION cfg \<and> reachable st1
       \<and> (\<exists>c. collections st1 h = Some c \<and> indexes c \<noteq> [] \<and> loaded c)"
  using assms
  by (auto simp add: ensure_collection_def connect_def ensure_index_def load_def Let_def
      split: if_splits option.splits)

text \<open>
  C9. For every state of a reachable store: if the collection exists and has an index,
  \<open>ensure_collection\<close> sends only a load request (no collection and no index is created),
  leaves schema and indexes as they are, and returns the collection, loaded; and a second
  call after any first call returns the same handle and changes nothing in the store but
  the log, which gains one load request.
\<close>

theorem ensure_collection_idempotent:
  assumes "reachable st"
  shows "(\<forall>c. collections st (MILVUS_COLLECTION cfg) = Some c \<and> indexes c \<noteq> [] \<longrightarrow>
            ensure_collection cfg st =
              Inr (MILVUS_COLLECTION cfg,
                   st\<lparr>collections :=
                        (collections st)(MILVUS_COLLECTION cfg \<mapsto> c\<lparr>loaded := True\<rparr>),
                      events := events st @ [Load (MILVUS_COLLECTION cfg)]\<rparr>))
       \<and> (\<exists>h st1. ensure_collection cfg st = Inr (h, st1)
             \<and> ensure_collection cfg st1 = Inr (h, st1\<lparr>events := events st1 @ [Load h]\<rparr>))"
proof (intro conjI allI impI)
  fix c
  assume "collections st (MILVUS_COLLECTION cfg) = Some c \<and> indexes c \<noteq> []"
  with assms show "ensure_collection cfg st =
      Inr (MILVUS_COLLECTION cfg,
           st\<lparr>collections := (collections st)(MILVUS_COLLECTION cfg \<mapsto> c\<lparr>loaded := True\<rparr>),
              events := events st @ [Load (MILVUS_COLLECTION cfg)]\<rparr>)"
    by (simp add: ensure_collection_existing)
next
  from assms obtain h st1 where first: "ensure_collection cfg st = Inr (h, st1)"
    by (simp add: ensure_collection_def connect_def Let_def)
  from ensure_collection_establishes [OF first]
  obtain c where h: "h = MILVUS_COLLECTION cfg" and r: "reachable st1"
    and c: "collections st1 h = Some c" "indexes c \<noteq> []" "loaded c"
    by blast
  have same: "(collections st1)(h \<mapsto> c\<lparr>loaded := True\<rparr>) = collections st1"
    using c by (auto simp add: fun_eq_iff)
  have "ensure_collection cfg st1 = Inr (h, st1\<lparr>events := events st1 @ [Load h]\<rparr>)"
    using ensure_collection_existing [OF r, of cfg c] c h same by simp
  with first show "\<exists>h st1. ensure_collection cfg st = Inr (h, st1)
      \<and> ensure_collection cfg st1 = Inr (h, st1\<lparr>events := events st1 @ [Load h]\<rparr>)"
    by blast
qed

theorem ensure_collection_idempotent_witness:
  "\<exists>h st1. ensure_collection default_milvus_config
               \<lparr>reachable = True, collections = Map.empty, events = []\<rparr> = Inr (h, st1)
          \<and> events st1 = [CreateCollection ''LabDoc'', CreateIndex ''LabDoc'', Load ''LabDoc'']
          \<and> ensure_collection default_milvus_config st1
              = Inr (h, st1\<lparr>events := events st1 @ [Load h]\<rparr>)"
proof -
  let ?st = "\<lparr>reachable = True, collections = Map.empty, events = []\<rparr>"
  have r: "reachable ?st"
    by simp
  from ensure_collection_idempotent [OF r, of default_milvus_config]
  obtain h st1 where hs: "ensure_collection default_milvus_config ?st = Inr (h, st1)"
    "ensure_collection default_milvus_config st1 = Inr (h, st1\<lparr>events := events st1 @ [Load h]\<rparr>)"
    by blast
  have "events st1 = [CreateCollection ''LabDoc'', CreateIndex ''LabDoc'', Load ''LabDoc'']"
    using hs(1)
    by (auto simp add: ensure_collection_def connect_def ensure_index_def load_def Let_def
        default_milvus_config_def)
  with hs show ?thesis
    by blast
qed

section \<open>Properties of the chat orchestrator\<close>

lemma wait_for_exceeds:
  assumes "exceeds timeout a"
  shows "wait_for timeout a = Failed timeout TimeoutError"
  using assms by (cases a) (auto simp add: exceeds_def wait_for_def)

lemma wait_for_timeout_error:
  "wait_for timeout (Raises d TimeoutError) = Failed (min d timeout) TimeoutError"
  by (simp add: wait_for_def min_def)

lemma chat_timeout_error:
  assumes "require_api_key key hdr = Inr ()"
    and "chat_impl cfg env (message payload) (detail_level payload) = Failed t TimeoutError"
  shows "chat cfg env str_of key hdr payload = Inl (HTTPException 504 ''Chat timed out.'')"
  using assms by (simp add: chat_def as_awaited_def wait_for_timeout_error)

lemma chat_overall_timeout:
  assumes "require_api_key key hdr = Inr ()"
    and "chat_impl cfg env (message payload) (detail_level payload) = Done t r"
    and "CHAT_TOTAL_TIMEOUT_S cfg < t"
  shows "chat cfg env str_of key hdr payload = Inl (HTTPException 504 ''Chat timed out.'')"
  using assms by (simp add: chat_def as_awaited_def wait_for_def)

lemma chat_impl_generate_timeout:
  assumes "wait_for (RETRIEVE_TIMEOUT_S cfg) (retrieve env msg) = Done t1 srcs"
    and "prompt_seconds env \<le> PROMPT_TIMEOUT_S cfg"
    and "exceeds (OLLAMA_TIMEOUT_S cfg) (generate env (build_prompt msg srcs lvl))"
  shows "chat_impl cfg env msg lvl
           = Failed (t1 + prompt_seconds env + OLLAMA_TIMEOUT_S cfg) TimeoutError"
  using assms(1,2) wait_for_exceeds [OF assms(3)]
  by (simp add: chat_impl_def wait_for_def)

text \<open>
  C4 (amended). When the generation stage exceeds its budget (retrieval and prompt
  building having finished within theirs), the chat handler aborts and returns no answer:
  it raises the response 504 \<open>Chat timed out.\<close> This is the same response that it
  raises when the total budget is breached by stages that each stayed within their own
  budget: the handler has one timeout condition, not one per stage.
\<close>

theorem chat_timeouts_same_response:
  assumes auth: "require_api_key key hdr = Inr ()"
  shows "(\<forall>t1 srcs.
            wait_for (RETRIEVE_TIMEOUT_S cfg) (retrieve env (message payload)) = Done t1 srcs
          \<and> prompt_seconds env \<le> PROMPT_TIMEOUT_S cfg
          \<and> exceeds (OLLAMA_TIMEOUT_S cfg)
               (generate env (build_prompt (message payload) srcs (detail_level payload)))
          \<longrightarrow> chat cfg env str_of key hdr payload
                = Inl (HTTPException 504 ''Chat timed out.''))
       \<and> (\<forall>t r.
            chat_impl cfg env (message payload) (detail_level payload) = Done t r
          \<and> CHAT_TOTAL_TIMEOUT_S cfg < t
          \<longrightarrow> chat cfg env str_of key hdr payload
                = Inl (HTTPException 504 ''Chat timed out.''))"
proof (intro conjI allI impI)
  fix t1 srcs
  assume a: "wait_for (RETRIEVE_TIMEOUT_S cfg) (retrieve env (message payload)) = Done t1 srcs
      \<and> prompt_seconds env \<le> PROMPT_TIMEOUT_S cfg
      \<and> exceeds (OLLAMA_TIMEOUT_S cfg)
           (generate env (build_prompt (message payload) srcs (detail_level payload)))"
  then have "chat_impl cfg env (message payload) (detail_level payload)
      = Failed (t1 + prompt_seconds env + OLLAMA_TIMEOUT_S cfg) TimeoutError"
    by (simp add: chat_impl_generate_timeout)
  with auth show "chat cfg env str_of key hdr payload = Inl (HTTPException 504 ''Chat timed out.'')"
    by (rule chat_timeout_error)
next
  fix t r
  assume "chat_impl cfg env (message payload) (detail_level payload) = Done t r
      \<and> CHAT_TOTAL_TIMEOUT_S cfg < t"
  with auth show "chat cfg env str_of key hdr payload = Inl (HTTPException 504 ''Chat timed out.'')"
    by (simp add: chat_overall_timeout)
qed

lemma slow_generation_impl:
  "chat_impl default_chat_config slow_generation_env ''hi'' (Some Standard)
     = Failed 121 TimeoutError"
  by (simp add: chat_impl_def wait_for_def default_chat_config_def slow_generation_env_def)

lemma slow_total_impl:
  "chat_impl tight_total_config slow_total_env ''hi'' (Some Standard)
     = Done 109 \<lparr>answer = ''answer'', sources = [],
                 timing = \<lparr>t_retrieve = 9000, t_prompt = 0, t_generate = 100000,
                           t_total = 109000\<rparr>,
                 prompt_chars = length (build_prompt ''hi'' [] (Some Standard))\<rparr>"
  by (simp add: chat_impl_def wait_for_def default_chat_config_def slow_total_env_def
      tight_total_config_def)

text \<open>
  C4 (as stated, refuted). A generation stage that exceeds its 120 seconds while the
  total budget of 180 seconds is not exhausted (the stage is cut at second 121) gives
  the very response that a breach of the total budget gives: there is no distinct
  stage-specific timeout condition.
\<close>

theorem stage_timeout_counterexample:
  "chat_impl default_chat_config slow_generation_env ''hi'' (Some Standard)
     = Failed 121 TimeoutError
   \<and> chat default_chat_config slow_generation_env (\<lambda>e. ''error'') ''key'' (Some ''key'')
       \<lparr>message = ''hi'', detail_level = Some Standard\<rparr>
     = Inl (HTTPException 504 ''Chat timed out.'')
   \<and> chat tight_total_config slow_total_env (\<lambda>e. ''error'') ''key'' (Some ''key'')
       \<lparr>message = ''hi'', detail_level = Some Standard\<rparr>
     = Inl (HTTPException 504 ''Chat timed out.'')"
  using slow_generation_impl slow_total_impl
  by (simp add: chat_def require_api_key_def as_awaited_def wait_for_def
      default_chat_config_def tight_total_config_def)

theorem chat_timeouts_same_response_witness:
  "chat default_chat_config slow_generation_env (\<lambda>e. ''error'') ''key'' (Some ''key'')
       \<lparr>message = ''hi'', detail_level = Some Standard\<rparr>
     = Inl (HTTPException 504 ''Chat timed out.'')
   \<and> chat tight_total_config slow_total_env (\<lambda>e. ''error'') ''key'' (Some ''key'')
       \<lparr>message = ''hi'', detail_level = Some Standard\<rparr>
     = Inl (HTTPException 504 ''Chat timed out.'')"
proof -
  let ?p = "\<lparr>message = ''hi'', detail_level = Some Standard\<rparr>"
  have auth: "require_api_key ''key'' (Some ''key'') = Inr ()"
    by (simp add: require_api_key_def)
  have r: "wait_for (RETRIEVE_TIMEOUT_S default_chat_config)
             (retrieve slow_generation_env (message ?p)) = Done 1 []"
    by (simp add: wait_for_def default_chat_config_def slow_generation_env_def)
  have p: "prompt_seconds slow_generation_env \<le> PROMPT_TIMEOUT_S default_chat_config"
    by (simp add: default_chat_config_def slow_generation_env_def)
  have g: "exceeds (OLLAMA_TIMEOUT_S default_chat_config)
             (generate slow_generation_env (build_prompt (message ?p) [] (detail_level ?p)))"
    by (simp add: exceeds_def default_chat_config_def slow_generation_env_def)
  have t: "chat_impl tight_total_config slow_total_env (message ?p) (detail_level ?p)
             = Done 109 \<lparr>answer = ''answer'', sources = [],
                 timing = \<lparr>t_retrieve = 9000, t_prompt = 0, t_generate = 100000,
                           t_total = 109000\<rparr>,
                 prompt_chars = length (build_prompt ''hi'' [] (Some Standard))\<rparr>"
    using slow_total_impl by simp
  have b: "CHAT_TOTAL_TIMEOUT_S tight_total_config < 109"
    by (simp add: tight_total_config_def default_chat_config_def)
  show ?thesis
    using chat_timeouts_same_response [OF auth, of default_chat_config slow_generation_env ?p "\<lambda>e. ''error''"]
      chat_timeouts_same_response [OF auth, of tight_total_config slow_total_env ?p "\<lambda>e. ''error''"]
      r p g t b
    by blast
qed

section \<open>Properties of the tag filter\<close>

lemma like_match_percent_only: "like_match ''%'' s"
  by (induction s) auto

lemma like_match_percent:
  "like_match (CHR ''%'' # q) s \<longleftrightarrow> (\<exists>a b. s = a @ b \<and> like_match q b)"
proof (induction s)
  case Nil
  then show ?case by simp
next
  case (Cons c cs)
  have "like_match (CHR ''%'' # q) (c # cs)
          \<longleftrightarrow> like_match q (c # cs) \<or> like_match (CHR ''%'' # q) cs"
    by simp
  also have "\<dots> \<longleftrightarrow> like_match q (c # cs) \<or> (\<exists>a b. cs = a @ b \<and> like_match q b)"
    using Cons.IH by simp
  also have "\<dots> \<longleftrightarrow> (\<exists>a b. c # cs = a @ b \<and> like_match q b)"
    by (auto simp add: Cons_eq_append_conv)
  finally show ?case .
qed

lemma like_match_literal:
  assumes "CHR ''%'' \<notin> set p" "CHR ''_'' \<notin> set p"
  shows "like_match (p @ q) s \<longleftrightarrow> (\<exists>r. s = p @ r \<and> like_match q r)"
  using assms
proof (induction p arbitrary: s)
  case Nil
  then show ?case by simp
next
  case (Cons x p)
  then show ?case by (cases s) auto
qed

lemma like_match_contains:
  assumes "CHR ''%'' \<notin> set p" "CHR ''_'' \<notin> set p"
  shows "like_match (CHR ''%'' # p @ ''%'') s \<longleftrightarrow> sublist p s"
proof -
  have "like_match (CHR ''%'' # p @ ''%'') s
          \<longleftrightarrow> (\<exists>a b. s = a @ b \<and> like_match (p @ ''%'') b)"
    by (rule like_match_percent)
  also have "\<dots> \<longleftrightarrow> (\<exists>a b. s = a @ b \<and> (\<exists>r. b = p @ r))"
    using like_match_literal [OF assms, of "''%''"] like_match_percent_only by simp
  also have "\<dots> \<longleftrightarrow> sublist p s"
    by (auto simp add: sublist_def)
  finally show ?thesis .
qed

lemma plain_tag_quoted:
  assumes "plain_tag t"
  shows "CHR ''%'' \<notin> set (dquote # t @ [dquote])" "CHR ''_'' \<notin> set (dquote # t @ [dquote])"
  using assms by (auto simp add: plain_tag_def dquote_def list_all_iff)

lemma like_pattern_contains:
  assumes "plain_tag t"
  shows "like_match (like_pattern t) col \<longleftrightarrow> sublist (dquote # t @ [dquote]) col"
  using like_match_contains [OF plain_tag_quoted [OF assms], of col]
  by (simp add: like_pattern_def)

text \<open>
  C1 (amended). For every memory query with a non-empty tag set (of tags without the
  pattern characters \<open>%\<close> and \<open>_\<close>, backslash and single quote), the search filter is
  the \<open>or\<close> of one \<open>like\<close> clause per requested tag, and a row passes it exactly when its
  tags column textually contains at least one requested tag enclosed in double quotes.
\<close>

theorem tag_filter_quoted_containment:
  assumes "ts \<noteq> []" and "\<forall>t \<in> set ts. plain_tag t"
  shows "tag_filter_expr (Some ts) = Some (join '' or '' (map tag_clause ts))
       \<and> (row_passes ts col \<longleftrightarrow> (\<exists>t \<in> set ts. sublist (dquote # t @ [dquote]) col))"
  using assms by (simp add: tag_filter_expr_def row_passes_def list_ex_iff like_pattern_contains)

theorem tag_filter_quoted_containment_witness:
  "tag_filter_expr (Some [''docker'', ''go''])
     = Some (join '' or '' (map tag_clause [''docker'', ''go'']))
   \<and> row_passes [''docker'', ''go'']
        (''['' @ [dquote] @ ''go'' @ [dquote] @ '', '' @ [dquote] @ ''mongo'' @ [dquote] @ '']'')"
proof -
  let ?col = "''['' @ [dquote] @ ''go'' @ [dquote] @ '', '' @ [dquote] @ ''mongo'' @ [dquote] @ '']''"
  have n: "[''docker'', ''go''] \<noteq> []"
    by simp
  have p: "\<forall>t \<in> set [''docker'', ''go'']. plain_tag t"
    by (simp add: plain_tag_def)
  have s: "sublist (dquote # ''go'' @ [dquote]) ?col"
    by code_simp
  show ?thesis
    using tag_filter_quoted_containment [OF n p, of ?col] s by simp
qed

text \<open>
  C1 (as stated, refuted). The specification says that the containment is plain substring
  containment, so that a requested tag \<open>go\<close> also matches a stored tag \<open>mongo\<close>. The
  clause of the code encloses the tag in double quotes: \<open>go\<close> is a substring of the
  stored JSON \<open>["mongo"]\<close>, but the row does not pass the filter; nor does a row with
  tags \<open>["mongodb"]\<close> pass the filter for \<open>docker\<close>.
\<close>

theorem tag_filter_go_mongo_counterexample:
  "tag_filter_expr (Some [''go''])
     = Some (''tags like '' @ [squote] @ ''%'' @ [dquote] @ ''go'' @ [dquote] @ ''%'' @ [squote])
   \<and> sublist ''go'' (''['' @ [dquote] @ ''mongo'' @ [dquote] @ '']'')
   \<and> \<not> row_passes [''go''] (''['' @ [dquote] @ ''mongo'' @ [dquote] @ '']'')
   \<and> \<not> row_passes [''docker''] (''['' @ [dquote] @ ''mongodb'' @ [dquote] @ '']'')"
  by code_simp

end
